theory Spec2Isabelle
  imports
    Complex_Main
    "HOL-Library.Char_ord"
    "HOL-Library.List_Lexorder"
    "HOL-Library.Product_Lexorder"
    "HOL-Library.Multiset"
    "HOL-Library.Sublist"
begin

section \<open>Chunked demographic aggregation (CodigoPararelaMain.py)\<close>

text \<open>
  The program reads a table in chunks, computes six summaries per chunk
  (\<open>procesar_chunk\<close>) and merges the summaries (\<open>combinar_resultados\<close>).

  Modelling decisions, all of them visible in the definitions below:
  \<^item> a row carries the columns the code reads: \<open>CP ORIGEN\<close>, \<open>CP DESTINO\<close> (as text),
    the year of the parsed \<open>FECHA NACIMIENTO\<close> (\<open>None\<close> when the date is missing or
    unparseable, which \<open>pd.to_datetime(errors="coerce")\<close> turns into a null),
    \<open>ESPECIE\<close> and \<open>GENERO\<close>;
  \<open>datetime.now().year\<close> is the parameter \<open>anio\<close>;
  \<^item> a Python dict is an association list in insertion order with unique keys; two dicts
    are equal in Python when their \<open>map_of\<close> agree;
  \<^item> a pandas Series (the pyramid) is an association list from index keys to cells, a
    cell being a number or NaN;
  \<^item> Python floats are modelled by exact rationals, so the theorems hold up to the
    floating-point rounding of the division and of \<open>round\<close>;
  \<^item> the two exceptions \<open>combinar_resultados\<close> can raise on well-typed partial
    results are values of \<open>py_error\<close>.
\<close>

subsection \<open>Rows and derived columns\<close>

datatype py_error = ZeroDivisionError | AttributeError

record fila =
  cp_origen :: string
  cp_destino :: string
  nacimiento :: "int option"
  especie :: string
  genero :: string

text \<open>
  \<open>chunk["estrato"] = chunk["CP ORIGEN"].astype(str).str[0]\<close>. The origin code is
  taken as present and not empty, as the code takes it: \<open>astype(str)\<close> never gives an
  empty text for a value read from the file.
\<close>

definition estrato_de :: "fila \<Rightarrow> string" where
  "estrato_de r = take 1 (cp_origen r)"

text \<open>\<open>datetime.now().year - x.year if pd.notnull(x) else None\<close>\<close>

definition edad_de :: "int \<Rightarrow> fila \<Rightarrow> int option" where
  "edad_de anio r = (case nacimiento r of None \<Rightarrow> None | Some y \<Rightarrow> Some (anio - y))"

fun clasificar_edad :: "int option \<Rightarrow> string option" where
  "clasificar_edad None = None"
| "clasificar_edad (Some e) =
     (if e < 18 then Some ''0-17''
      else if e \<le> 35 then Some ''18-35''
      else if e \<le> 60 then Some ''36-60''
      else Some ''61+'')"

text \<open>Decimal text of an integer, as an f-string prints it.\<close>

fun digitos :: "nat \<Rightarrow> string" where
  "digitos n =
     (if n < 10 then [''0123456789'' ! n]
      else digitos (n div 10) @ [''0123456789'' ! (n mod 10)])"

declare digitos.simps [simp del]

definition str_int :: "int \<Rightarrow> string" where
  "str_int i = (if i < 0 then CHR ''-'' # digitos (nat (- i)) else digitos (nat i))"

fun clasificar_grupo_5anios :: "int option \<Rightarrow> string option" where
  "clasificar_grupo_5anios None = None"
| "clasificar_grupo_5anios (Some edad) =
     (if edad < 0 then None
      else if edad \<ge> 90 then Some ''90+''
      else (let base = (edad div 5) * 5
            in Some (str_int base @ ''-'' @ str_int (base + 4))))"

subsection \<open>The pandas operations the chunk aggregator uses\<close>

text \<open>
  \<open>groupby(keys).size()\<close>: one entry per distinct key, keys in ascending order, the
  value the number of rows with that key. Rows whose key has a null component are
  dropped by pandas; the callers below filter them out before grouping.
\<close>

definition groupby_size :: "('k::linorder) list \<Rightarrow> ('k \<times> int) list" where
  "groupby_size ks = map (\<lambda>k. (k, int (count_list ks k))) (sort (remdups ks))"

text \<open>
  \<open>value_counts()\<close>: one entry per distinct value, by descending count; values of equal
  count stay in order of first appearance.
\<close>

definition value_counts :: "'k list \<Rightarrow> ('k \<times> int) list" where
  "value_counts ks =
     sort_key (\<lambda>kv. - snd kv) (map (\<lambda>k. (k, int (count_list ks k))) (rev (remdups (rev ks))))"

definition mean :: "int list \<Rightarrow> rat" where
  "mean xs = of_int (sum_list xs) / of_nat (length xs)"

definition median :: "int list \<Rightarrow> rat" where
  "median xs =
     (let s = sort xs; n = length s
      in if odd n then of_int (s ! (n div 2))
         else (of_int (s ! (n div 2 - 1)) + of_int (s ! (n div 2))) / 2)"

record edad_stat =
  es_especie :: string
  es_genero :: string
  es_mean :: rat
  es_median :: rat

datatype valor = Num int | NaN

type_synonym serie = "((string \<times> string) \<times> valor) list"

subsection \<open>procesar\_chunk\<close>

text \<open>The tuple \<open>(conteo_estrato, edad_stats, tramos, dependencia, viajes, piramide)\<close>.\<close>

record parcial =
  p_estrato :: "(string \<times> int) list"
  p_edades :: "edad_stat list"
  p_tramos :: "((string \<times> string \<times> string) \<times> int) list"
  p_dependencia :: "int \<times> int"
  p_viajes :: "(string \<times> string \<times> int) list"
  p_piramide :: serie

text \<open>The non-null ages of one (species, gender) group, in row order.\<close>

definition edades_grupo :: "int \<Rightarrow> fila list \<Rightarrow> string \<times> string \<Rightarrow> int list" where
  "edades_grupo anio chunk g =
     concat (map (\<lambda>r. if (especie r, genero r) = g
                       then (case edad_de anio r of None \<Rightarrow> [] | Some e \<Rightarrow> [e]) else []) chunk)"

text \<open>
  \<open>groupby(["ESPECIE","GENERO"])["edad"].agg(["mean","median"]).dropna()\<close>: a group
  without any non-null age has a null mean and median and is dropped.
\<close>

definition edad_stats_de :: "int \<Rightarrow> fila list \<Rightarrow> edad_stat list" where
  "edad_stats_de anio chunk =
     concat (map (\<lambda>g. let xs = edades_grupo anio chunk g
                      in if xs = [] then []
                         else [\<lparr>es_especie = fst g, es_genero = snd g,
                                es_mean = mean xs, es_median = median xs\<rparr>])
                 (sort (remdups (map (\<lambda>r. (especie r, genero r)) chunk))))"

definition claves_tramo :: "int \<Rightarrow> fila list \<Rightarrow> (string \<times> string \<times> string) list" where
  "claves_tramo anio chunk =
     concat (map (\<lambda>r. case clasificar_edad (edad_de anio r) of
                         None \<Rightarrow> [] | Some t \<Rightarrow> [(especie r, genero r, t)]) chunk)"

definition claves_piramide :: "int \<Rightarrow> fila list \<Rightarrow> (string \<times> string) list" where
  "claves_piramide anio chunk =
     concat (map (\<lambda>r. case clasificar_grupo_5anios (edad_de anio r) of
                         None \<Rightarrow> [] | Some g \<Rightarrow> [(g, genero r)]) chunk)"

text \<open>Number of rows whose age is not null and satisfies \<open>P\<close> (a comparison with NaN is false).\<close>

definition contar_edad :: "int \<Rightarrow> (int \<Rightarrow> bool) \<Rightarrow> fila list \<Rightarrow> int" where
  "contar_edad anio P chunk =
     int (length (filter (\<lambda>r. case edad_de anio r of None \<Rightarrow> False | Some e \<Rightarrow> P e) chunk))"

definition procesar_chunk :: "int \<Rightarrow> fila list \<Rightarrow> parcial" where
  "procesar_chunk anio chunk =
     (let conteo_estrato = value_counts (map estrato_de chunk);
          edad_stats = edad_stats_de anio chunk;
          tramos = groupby_size (claves_tramo anio chunk);
          menores_15 = contar_edad anio (\<lambda>e. e < 15) chunk;
          mayores_64 = contar_edad anio (\<lambda>e. e > 64) chunk;
          edad_trabajo = contar_edad anio (\<lambda>e. e \<ge> 15 \<and> e \<le> 64) chunk;
          dependencia = (menores_15 + mayores_64, edad_trabajo);
          viajes = map (\<lambda>((ori, dst), conteo). (ori, dst, conteo))
                     (groupby_size (map (\<lambda>r. (cp_origen r, cp_destino r)) chunk));
          piramide = map (\<lambda>(k, n). (k, Num n)) (groupby_size (claves_piramide anio chunk))
      in \<lparr>p_estrato = conteo_estrato, p_edades = edad_stats, p_tramos = tramos,
          p_dependencia = dependencia, p_viajes = viajes, p_piramide = piramide\<rparr>)"

subsection \<open>combinar\_resultados\<close>

text \<open>\<open>d[k] += v\<close> on a \<open>defaultdict(int)\<close>: a new key is appended with \<open>0 + v\<close>.\<close>

fun dict_add :: "('k \<times> int) list \<Rightarrow> 'k \<Rightarrow> int \<Rightarrow> ('k \<times> int) list" where
  "dict_add [] k v = [(k, 0 + v)]"
| "dict_add ((k', x) # d) k v =
     (if k' = k then (k', x + v) # d else (k', x) # dict_add d k v)"

text \<open>\<open>for k, v in items: d[k] += v\<close>\<close>

definition dict_merge :: "('k \<times> int) list \<Rightarrow> ('k \<times> int) list \<Rightarrow> ('k \<times> int) list" where
  "dict_merge d items = foldl (\<lambda>d' (k, v). dict_add d' k v) d items"

text \<open>
  \<open>+\<close> on two Series aligns them on the union of their index keys; a key missing on
  either side gives NaN, and NaN plus anything is NaN. When the two indexes are
  equal the index is kept, otherwise the result is indexed by the sorted union.
\<close>

fun valor_add :: "valor \<Rightarrow> valor \<Rightarrow> valor" where
  "valor_add (Num a) (Num b) = Num (a + b)"
| "valor_add _ _ = NaN"

definition serie_add :: "serie \<Rightarrow> serie \<Rightarrow> serie" where
  "serie_add a b =
     (let ks = (if map fst a = map fst b then map fst a
                else sort (remdups (map fst a @ map fst b)))
      in map (\<lambda>k. (k, case (map_of a k, map_of b k) of
                         (Some x, Some y) \<Rightarrow> valor_add x y
                       | _ \<Rightarrow> NaN)) ks)"

text \<open>
  Python's \<open>round(x, n)\<close> on the exact value: to the nearest multiple of \<open>10^-n\<close>, a tie
  to the even one.
\<close>

definition round_half_even :: "rat \<Rightarrow> int" where
  "round_half_even q =
     (let f = \<lfloor>q\<rfloor>; d = q - of_int f
      in if d < 1 / 2 then f
         else if d > 1 / 2 then f + 1
         else if even f then f else f + 1)"

definition py_round :: "rat \<Rightarrow> nat \<Rightarrow> rat" where
  "py_round q n = of_int (round_half_even (q * 10 ^ n)) / 10 ^ n"

text \<open>The local variables of \<open>combinar_resultados\<close> that its loop updates.\<close>

record acumulador =
  total_estrato :: "(string \<times> int) list"
  edad_registros :: "edad_stat list"
  tramos_total :: "((string \<times> string \<times> string) \<times> int) list"
  dep_numerador :: int
  dep_denominador :: int
  viajes_total :: "((string \<times> string) \<times> int) list"
  piramide_total :: "serie list"

definition acumulador_inicial :: acumulador where
  "acumulador_inicial =
     \<lparr>total_estrato = [], edad_registros = [], tramos_total = [], dep_numerador = 0,
      dep_denominador = 0, viajes_total = [], piramide_total = []\<rparr>"

text \<open>One iteration of \<open>for res in resultados\<close>.\<close>

definition paso :: "acumulador \<Rightarrow> parcial \<Rightarrow> acumulador" where
  "paso acc res =
     \<lparr>total_estrato = dict_merge (total_estrato acc) (p_estrato res),
      edad_registros = edad_registros acc @ p_edades res,
      tramos_total = dict_merge (tramos_total acc) (p_tramos res),
      dep_numerador = dep_numerador acc + fst (p_dependencia res),
      dep_denominador = dep_denominador acc + snd (p_dependencia res),
      viajes_total = dict_merge (viajes_total acc)
                       (map (\<lambda>(ori, dst, count). ((ori, dst), count)) (p_viajes res)),
      piramide_total = piramide_total acc @ [p_piramide res]\<rparr>"

text \<open>The returned dict.\<close>

record final =
  conteo_estrato :: "(string \<times> int) list"
  porcentaje_estrato :: "(string \<times> rat) list"
  edad_estadisticas :: "edad_stat list"
  tramos :: "((string \<times> string \<times> string) \<times> int) list"
  indice_dependencia :: "rat option"
  top_viajes :: "((string \<times> string) \<times> int) list"
  piramide_edades :: serie

text \<open>
  \<open>sum(piramide_total)\<close> is \<open>0 + s1 + s2 + ...\<close>; \<open>0 + s1\<close> is \<open>s1\<close>. On an empty list it
  is the integer 0, and \<open>reset_index\<close> on it raises AttributeError. The division of
  line 91 raises ZeroDivisionError when the dict has a key and the total is 0; it is
  evaluated before the pyramid is touched.
\<close>

definition combinar_resultados :: "parcial list \<Rightarrow> py_error + final" where
  "combinar_resultados resultados =
     (let acc = foldl paso acumulador_inicial resultados;
          total_poblacion = sum_list (map snd (total_estrato acc))
      in if total_estrato acc \<noteq> [] \<and> total_poblacion = 0 then Inl ZeroDivisionError
         else
           (let porcentaje =
                  map (\<lambda>(k, v). (k, py_round (of_int (v * 100) / of_int total_poblacion) 2))
                      (total_estrato acc);
                top_10k = take 10000 (sort_key (\<lambda>x. - snd x) (viajes_total acc))
            in case piramide_total acc of
                 [] \<Rightarrow> Inl AttributeError
               | s # ss \<Rightarrow>
                   Inr \<lparr>conteo_estrato = total_estrato acc,
                        porcentaje_estrato = porcentaje,
                        edad_estadisticas = edad_registros acc,
                        tramos = tramos_total acc,
                        indice_dependencia =
                          (if dep_denominador acc > 0
                           then Some (py_round (of_int (dep_numerador acc)
                                                / of_int (dep_denominador acc)) 3)
                           else None),
                        top_viajes = top_10k,
                        piramide_edades = foldl serie_add s ss\<rparr>))"

subsection \<open>Reference notions used in the statements\<close>

text \<open>\<open>d.get(k, 0)\<close>: the value of a key of a dict, 0 when the key is absent.\<close>

definition lookup0 :: "('k \<times> int) list \<Rightarrow> 'k \<Rightarrow> int" where
  "lookup0 d k = (case map_of d k of None \<Rightarrow> 0 | Some v \<Rightarrow> v)"

text \<open>The sum of the values that a list of (key, value) items gives for one key.\<close>

definition suma_clave :: "'k \<Rightarrow> ('k \<times> int) list \<Rightarrow> int" where
  "suma_clave k items = sum_list (map snd (filter (\<lambda>kv. fst kv = k) items))"


text \<open>The labels of the five-year groups below 90, in ascending order of age.\<close>

definition grupos_5anios :: "string list" where
  "grupos_5anios = [''0-4'', ''5-9'', ''10-14'', ''15-19'', ''20-24'', ''25-29'', ''30-34'',
     ''35-39'', ''40-44'', ''45-49'', ''50-54'', ''55-59'', ''60-64'', ''65-69'', ''70-74'',
     ''75-79'', ''80-84'', ''85-89'']"

subsection \<open>Concrete inputs used in the examples\<close>


text \<open>The (key, count) items that the partial results feed to each accumulating dict.\<close>

definition items_estrato :: "parcial list \<Rightarrow> (string \<times> int) list" where
  "items_estrato ps = concat (map p_estrato ps)"

definition items_tramos :: "parcial list \<Rightarrow> ((string \<times> string \<times> string) \<times> int) list" where
  "items_tramos ps = concat (map p_tramos ps)"

definition items_viajes :: "parcial list \<Rightarrow> ((string \<times> string) \<times> int) list" where
  "items_viajes ps =
     concat (map (\<lambda>p. map (\<lambda>(ori, dst, count). ((ori, dst), count)) (p_viajes p)) ps)"

text \<open>Four rows of species A, gender M, born 2014, 2004, 1994 and 1984.\<close>

definition fila_nacida :: "int \<Rightarrow> fila" where
  "fila_nacida y =
     \<lparr>cp_origen = ''1000'', cp_destino = ''2000'', nacimiento = Some y,
      especie = ''A'', genero = ''M''\<rparr>"



text \<open>The distinct elements of a list, in order of first appearance.\<close>

definition primeras :: "'k list \<Rightarrow> 'k list" where
  "primeras ks = rev (remdups (rev ks))"

text \<open>A row without birth date that travels from \<open>ori\<close> to \<open>dst\<close>.\<close>

definition fila_ruta :: "string \<Rightarrow> string \<Rightarrow> fila" where
  "fila_ruta ori dst =
     \<lparr>cp_origen = ori, cp_destino = dst, nacimiento = None, especie = ''A'', genero = ''M''\<rparr>"

text \<open>The counts of the travel flows, largest first, as one pass over all rows gives them.\<close>

definition conteos_viajes :: "fila list \<Rightarrow> int list" where
  "conteos_viajes filas =
     map snd (take 10000 (sort_key (\<lambda>x. - snd x)
        (groupby_size (map (\<lambda>r. (cp_origen r, cp_destino r)) filas))))"

section \<open>Properties\<close>

subsection \<open>Decimal labels\<close>

lemma str_int_digit: "0 \<le> i \<Longrightarrow> i < 10 \<Longrightarrow> str_int i = [''0123456789'' ! nat i]"
  by (simp add: str_int_def digitos.simps)

lemma str_int_two: "10 \<le> i \<Longrightarrow> i < 100 \<Longrightarrow>
  str_int i = [''0123456789'' ! nat (i div 10), ''0123456789'' ! nat (i mod 10)]"
proof -
  assume a: "10 \<le> i" "i < 100"
  then have "nat i div 10 < 10" "\<not> nat i < 10" by auto
  moreover have "nat i div 10 = nat (i div 10)" "nat i mod 10 = nat (i mod 10)"
    using a by (simp_all add: nat_div_distrib nat_mod_distrib)
  ultimately show ?thesis using a
    by (simp add: str_int_def digitos.simps[of "nat i"] digitos.simps[of "nat (i div 10)"])
qed

lemma etiqueta_grupo:
  assumes "0 \<le> q" "q < 18"
  shows "str_int (q * 5) @ ''-'' @ str_int (q * 5 + 4) = grupos_5anios ! nat q"
proof -
  from assms have "q \<in> {0..17}" by simp
  also have "{0..17::int} = set [0..17]" by simp
  finally have "q \<in> set [0..17]" .
  then have "q \<in> {0,1,2,3,4,5,6,7,8,9,10,11,12,13,14,15,16,17}"
    by (simp add: upto.simps)
  then show ?thesis
    by (elim insertE emptyE; simp add: grupos_5anios_def str_int_digit str_int_two)
qed

subsection \<open>Dict accumulation\<close>

lemma map_of_dict_add: "map_of (dict_add d k v) = (map_of d)(k \<mapsto> lookup0 d k + v)"
  by (induction d k v rule: dict_add.induct) (auto simp: lookup0_def fun_eq_iff)

lemma keys_dict_add:
  "map fst (dict_add d k v) = (if k \<in> set (map fst d) then map fst d else map fst d @ [k])"
  by (induction d k v rule: dict_add.induct) auto

lemma keyset_dict_add: "fst ` set (dict_add d k v) = insert k (fst ` set d)"
proof -
  have "set (map fst (dict_add d k v)) = insert k (set (map fst d))"
    unfolding keys_dict_add by auto
  then show ?thesis by simp
qed

lemma distinct_dict_add:
  "distinct (map fst d) \<Longrightarrow> distinct (map fst (dict_add d k v))"
  by (simp add: keys_dict_add)

lemma sum_dict_add: "sum_list (map snd (dict_add d k v)) = sum_list (map snd d) + v"
  by (induction d k v rule: dict_add.induct) auto

lemma lookup0_dict_add:
  "lookup0 (dict_add d k v) k' = (if k' = k then lookup0 d k + v else lookup0 d k')"
  by (simp add: lookup0_def map_of_dict_add)

lemma dict_merge_Nil: "dict_merge d [] = d"
  by (simp add: dict_merge_def)

lemma dict_merge_Cons: "dict_merge d ((k, v) # items) = dict_merge (dict_add d k v) items"
  by (simp add: dict_merge_def)

lemma dict_merge_append: "dict_merge d (xs @ ys) = dict_merge (dict_merge d xs) ys"
  by (simp add: dict_merge_def)

lemma suma_clave_Nil: "suma_clave k [] = 0"
  by (simp add: suma_clave_def)

lemma suma_clave_Cons:
  "suma_clave k ((k', v) # items) = (if k' = k then v else 0) + suma_clave k items"
  by (simp add: suma_clave_def)


lemma lookup0_dict_merge: "lookup0 (dict_merge d items) k = lookup0 d k + suma_clave k items"
proof (induction items arbitrary: d)
  case Nil
  then show ?case by (simp add: dict_merge_Nil suma_clave_Nil)
next
  case (Cons a items)
  obtain k' v where a: "a = (k', v)" by (cases a)
  show ?case
    by (simp add: a dict_merge_Cons Cons.IH lookup0_dict_add suma_clave_Cons)
qed

lemma keys_dict_merge: "fst ` set (dict_merge d items) = fst ` set d \<union> fst ` set items"
proof (induction items arbitrary: d)
  case Nil
  then show ?case by (simp add: dict_merge_Nil)
next
  case (Cons a items)
  obtain k' v where a: "a = (k', v)" by (cases a)
  show ?case
    by (auto simp: a dict_merge_Cons Cons.IH keyset_dict_add)
qed

lemma distinct_dict_merge:
  "distinct (map fst d) \<Longrightarrow> distinct (map fst (dict_merge d items))"
proof (induction items arbitrary: d)
  case Nil
  then show ?case by (simp add: dict_merge_Nil)
next
  case (Cons a items)
  obtain k' v where a: "a = (k', v)" by (cases a)
  show ?case using Cons.prems
    by (simp add: a dict_merge_Cons Cons.IH distinct_dict_add)
qed

lemma sum_dict_merge:
  "sum_list (map snd (dict_merge d items)) = sum_list (map snd d) + sum_list (map snd items)"
proof (induction items arbitrary: d)
  case Nil
  then show ?case by (simp add: dict_merge_Nil)
next
  case (Cons a items)
  obtain k' v where a: "a = (k', v)" by (cases a)
  show ?case
    by (simp add: a dict_merge_Cons Cons.IH sum_dict_add)
qed

lemma map_of_eq_lookup0:
  "map_of d k = (if k \<in> set (map fst d) then Some (lookup0 d k) else None)"
  by (auto simp: lookup0_def map_of_eq_None_iff[symmetric] split: option.splits)

lemma map_of_dict_merge:
  "map_of (dict_merge d items) k =
     (if k \<in> fst ` set d \<union> fst ` set items
      then Some (lookup0 d k + suma_clave k items) else None)"
  using map_of_eq_lookup0[of "dict_merge d items" k]
  by (simp add: keys_dict_merge lookup0_dict_merge)

subsection \<open>Grouping and counting\<close>


lemma suma_clave_mset:
  "mset xs = mset ys \<Longrightarrow> suma_clave k xs = suma_clave k ys"
proof -
  assume "mset xs = mset ys"
  then have "mset (map snd (filter (\<lambda>kv. fst kv = k) xs)) = mset (map snd (filter (\<lambda>kv. fst kv = k) ys))"
    by simp
  then show ?thesis
    unfolding suma_clave_def by (metis sum_mset_sum_list)
qed





lemma sum_tabla_conteo:
  assumes "distinct xs" "set xs = set ks"
  shows "sum_list (map (\<lambda>k. int (count_list ks k)) xs) = int (length ks)"
proof -
  have "sum_list (map (\<lambda>k. int (count_list ks k)) xs) = (\<Sum>k\<in>set xs. int (count_list ks k))"
    using assms(1) by (rule sum_list_distinct_conv_sum_set)
  also have "\<dots> = int (\<Sum>k\<in>set ks. count_list ks k)"
    using assms(2) by simp
  also have "(\<Sum>k\<in>set ks. count_list ks k) = length ks"
    by (rule sum_count_set) simp_all
  finally show ?thesis .
qed

lemma sum_groupby_size: "sum_list (map snd (groupby_size ks)) = int (length ks)"
  unfolding groupby_size_def
  by (simp add: comp_def sum_tabla_conteo)


lemma keys_value_counts: "fst ` set (value_counts ks) = set ks"
proof -
  have "set (value_counts ks) = set (map (\<lambda>x. (x, int (count_list ks x))) (rev (remdups (rev ks))))"
    unfolding value_counts_def by simp
  then have "fst ` set (value_counts ks) = fst ` (\<lambda>x. (x, int (count_list ks x))) ` set ks"
    by simp
  then show ?thesis by (simp add: image_image)
qed

lemma sum_list_sort_key:
  fixes g :: "'a \<Rightarrow> int"
  shows "sum_list (map g (sort_key f xs)) = sum_list (map g xs)"
proof -
  have "mset (map g (sort_key f xs)) = mset (map g xs)" by simp
  then show ?thesis by (metis sum_mset_sum_list)
qed

lemma sum_value_counts: "sum_list (map snd (value_counts ks)) = int (length ks)"
  unfolding value_counts_def
  by (simp add: sum_list_sort_key comp_def sum_tabla_conteo)

subsection \<open>The chunk aggregator, field by field\<close>

lemma procesar_chunk_sel:
  "p_estrato (procesar_chunk anio chunk) = value_counts (map estrato_de chunk)"
  "p_edades (procesar_chunk anio chunk) = edad_stats_de anio chunk"
  "p_tramos (procesar_chunk anio chunk) = groupby_size (claves_tramo anio chunk)"
  "p_dependencia (procesar_chunk anio chunk) =
     (contar_edad anio (\<lambda>e. e < 15) chunk + contar_edad anio (\<lambda>e. e > 64) chunk,
      contar_edad anio (\<lambda>e. e \<ge> 15 \<and> e \<le> 64) chunk)"
  "p_viajes (procesar_chunk anio chunk) =
     map (\<lambda>((ori, dst), conteo). (ori, dst, conteo))
       (groupby_size (map (\<lambda>r. (cp_origen r, cp_destino r)) chunk))"
  "p_piramide (procesar_chunk anio chunk) =
     map (\<lambda>(k, n). (k, Num n)) (groupby_size (claves_piramide anio chunk))"
  by (simp_all add: procesar_chunk_def)







lemma length_claves_tramo:
  "int (length (claves_tramo anio chunk)) = contar_edad anio (\<lambda>e. True) chunk"
  unfolding claves_tramo_def contar_edad_def
  by (induction chunk) (auto split: option.splits)

subsection \<open>The two age classifiers\<close>

text \<open>
  Claim C8. The bracket classifier sends an age below 18 to "0-17", an age from 18 to 35 to
  "18-35", an age from 36 to 60 to "36-60", an age above 60 to "61+" and a null age to
  null; the ages 17, 18, 35, 36, 60, 61 go to "0-17", "18-35", "18-35", "36-60", "36-60",
  "61+". A null bracket is excluded from the bracket counts: the counts of a chunk add up
  to the number of its rows with a non-null age.
\<close>

theorem clasificar_edad_tramos:
  assumes "a < 18" and "18 \<le> b" and "b \<le> 35" and "36 \<le> c" and "c \<le> 60" and "60 < d"
  shows "clasificar_edad (Some a) = Some ''0-17'' \<and>
         clasificar_edad (Some b) = Some ''18-35'' \<and>
         clasificar_edad (Some c) = Some ''36-60'' \<and>
         clasificar_edad (Some d) = Some ''61+'' \<and>
         clasificar_edad None = None \<and>
         map clasificar_edad [Some 17, Some 18, Some 35, Some 36, Some 60, Some 61] =
           [Some ''0-17'', Some ''18-35'', Some ''18-35'', Some ''36-60'', Some ''36-60'', Some ''61+''] \<and>
         sum_list (map snd (p_tramos (procesar_chunk anio chunk))) =
           contar_edad anio (\<lambda>e. True) chunk"
  using assms by (simp add: procesar_chunk_sel sum_groupby_size length_claves_tramo)

theorem clasificar_edad_tramos_witness:
  "(5::int) < 18 \<and> (18::int) \<le> 20 \<and> (20::int) \<le> 35 \<and> (36::int) \<le> 40 \<and> (40::int) \<le> 60 \<and>
   (60::int) < 70 \<and>
   clasificar_edad (Some 5) = Some ''0-17'' \<and>
   clasificar_edad (Some 20) = Some ''18-35'' \<and>
   clasificar_edad (Some 40) = Some ''36-60'' \<and>
   clasificar_edad (Some 70) = Some ''61+'' \<and>
   sum_list (map snd (p_tramos (procesar_chunk 2024
      [\<lparr>cp_origen = ''1'', cp_destino = ''2'', nacimiento = None, especie = ''A'', genero = ''F''\<rparr>,
       \<lparr>cp_origen = ''1'', cp_destino = ''2'', nacimiento = Some 1954, especie = ''A'', genero = ''F''\<rparr>]))) = 1"
  using clasificar_edad_tramos [of 5 20 40 70 2024
      "[\<lparr>cp_origen = ''1'', cp_destino = ''2'', nacimiento = None, especie = ''A'', genero = ''F''\<rparr>,
       \<lparr>cp_origen = ''1'', cp_destino = ''2'', nacimiento = Some 1954, especie = ''A'', genero = ''F''\<rparr>]"]
  by (simp add: contar_edad_def edad_de_def)

text \<open>
  Claim C9. The five-year classifier sends an age of 90 or more to "90+", an age from 0 to
  89 to the label made of \<open>floor(age/5)*5\<close> and that number plus 4 (one of the eighteen
  labels "0-4", ..., "85-89", and the age lies between the two numbers), and a negative or
  null age to null; 89 goes to "85-89", 90 to "90+", and -1 and null are excluded.
\<close>

theorem clasificar_grupo_5anios_buckets:
  assumes "90 \<le> a" and "0 \<le> b" and "b < 90" and "c < 0"
  shows "clasificar_grupo_5anios (Some a) = Some ''90+'' \<and>
         clasificar_grupo_5anios (Some b) =
           Some (str_int (b div 5 * 5) @ ''-'' @ str_int (b div 5 * 5 + 4)) \<and>
         clasificar_grupo_5anios (Some b) = Some (grupos_5anios ! nat (b div 5)) \<and>
         b div 5 * 5 \<le> b \<and> b \<le> b div 5 * 5 + 4 \<and>
         clasificar_grupo_5anios (Some c) = None \<and>
         clasificar_grupo_5anios None = None \<and>
         clasificar_grupo_5anios (Some 89) = Some ''85-89'' \<and>
         clasificar_grupo_5anios (Some 90) = Some ''90+'' \<and>
         clasificar_grupo_5anios (Some (- 1)) = None"
proof -
  have q: "0 \<le> b div 5" "b div 5 < 18" using assms by auto
  have "str_int (b div 5 * 5) @ ''-'' @ str_int (b div 5 * 5 + 4) = grupos_5anios ! nat (b div 5)"
    using q by (rule etiqueta_grupo)
  moreover have "clasificar_grupo_5anios (Some 89) = Some ''85-89''"
    by (simp add: str_int_two)
  moreover have "b div 5 * 5 \<le> b \<and> b \<le> b div 5 * 5 + 4" by presburger
  ultimately show ?thesis using assms by (simp add: Let_def)
qed

theorem clasificar_grupo_5anios_buckets_witness:
  "(90::int) \<le> 95 \<and> (0::int) \<le> 42 \<and> (42::int) < 90 \<and> (- 7::int) < 0 \<and>
   clasificar_grupo_5anios (Some 95) = Some ''90+'' \<and>
   clasificar_grupo_5anios (Some 42) = Some ''40-44'' \<and>
   clasificar_grupo_5anios (Some (- 7)) = None"
  using clasificar_grupo_5anios_buckets [of 95 42 "- 7"]
  by (simp add: grupos_5anios_def)


subsection \<open>The loop of the combiner\<close>

lemma total_estrato_foldl:
  "total_estrato (foldl paso acc ps) = dict_merge (total_estrato acc) (items_estrato ps)"
  by (induction ps arbitrary: acc) (simp_all add: items_estrato_def paso_def dict_merge_Nil dict_merge_append)

lemma tramos_total_foldl:
  "tramos_total (foldl paso acc ps) = dict_merge (tramos_total acc) (items_tramos ps)"
  by (induction ps arbitrary: acc) (simp_all add: items_tramos_def paso_def dict_merge_Nil dict_merge_append)

lemma viajes_total_foldl:
  "viajes_total (foldl paso acc ps) = dict_merge (viajes_total acc) (items_viajes ps)"
  by (induction ps arbitrary: acc) (simp_all add: items_viajes_def paso_def dict_merge_Nil dict_merge_append)

lemma edad_registros_foldl:
  "edad_registros (foldl paso acc ps) = edad_registros acc @ concat (map p_edades ps)"
  by (induction ps arbitrary: acc) (simp_all add: paso_def)

lemma dep_numerador_foldl:
  "dep_numerador (foldl paso acc ps) = dep_numerador acc + sum_list (map (\<lambda>p. fst (p_dependencia p)) ps)"
  by (induction ps arbitrary: acc) (simp_all add: paso_def)

lemma dep_denominador_foldl:
  "dep_denominador (foldl paso acc ps) = dep_denominador acc + sum_list (map (\<lambda>p. snd (p_dependencia p)) ps)"
  by (induction ps arbitrary: acc) (simp_all add: paso_def)

lemma piramide_total_foldl:
  "piramide_total (foldl paso acc ps) = piramide_total acc @ map p_piramide ps"
  by (induction ps arbitrary: acc) (simp_all add: paso_def)

lemmas foldl_paso_inicial =
  total_estrato_foldl [of acumulador_inicial] tramos_total_foldl [of acumulador_inicial]
  viajes_total_foldl [of acumulador_inicial] edad_registros_foldl [of acumulador_inicial]
  dep_numerador_foldl [of acumulador_inicial] dep_denominador_foldl [of acumulador_inicial]
  piramide_total_foldl [of acumulador_inicial]

lemma acumulador_inicial_sel:
  "total_estrato acumulador_inicial = []" "edad_registros acumulador_inicial = []"
  "tramos_total acumulador_inicial = []" "dep_numerador acumulador_inicial = 0"
  "dep_denominador acumulador_inicial = 0" "viajes_total acumulador_inicial = []"
  "piramide_total acumulador_inicial = []"
  by (simp_all add: acumulador_inicial_def)

text \<open>When the combiner returns, and what each field of the result then is.\<close>

lemma combinar_resultados_Inr_iff:
  "(\<exists>f. combinar_resultados ps = Inr f) \<longleftrightarrow>
     ps \<noteq> [] \<and> \<not> (dict_merge [] (items_estrato ps) \<noteq> []
                   \<and> sum_list (map snd (dict_merge [] (items_estrato ps))) = 0)"
  unfolding combinar_resultados_def Let_def
  by (cases ps) (simp_all add: foldl_paso_inicial acumulador_inicial_sel del: foldl_Cons)

lemma combinar_resultados_campos:
  assumes "combinar_resultados ps = Inr f"
  shows "conteo_estrato f = dict_merge [] (items_estrato ps)"
    and "porcentaje_estrato f =
           map (\<lambda>(k, v). (k, py_round (of_int (v * 100)
                  / of_int (sum_list (map snd (dict_merge [] (items_estrato ps))))) 2))
               (dict_merge [] (items_estrato ps))"
    and "edad_estadisticas f = concat (map p_edades ps)"
    and "tramos f = dict_merge [] (items_tramos ps)"
    and "indice_dependencia f =
           (if sum_list (map (\<lambda>p. snd (p_dependencia p)) ps) > 0
            then Some (py_round (of_int (sum_list (map (\<lambda>p. fst (p_dependencia p)) ps))
                                 / of_int (sum_list (map (\<lambda>p. snd (p_dependencia p)) ps))) 3)
            else None)"
    and "top_viajes f = take 10000 (sort_key (\<lambda>x. - snd x) (dict_merge [] (items_viajes ps)))"
    and "piramide_edades f = foldl serie_add (p_piramide (hd ps)) (map p_piramide (tl ps))"
  using assms unfolding combinar_resultados_def Let_def
  by (cases ps; auto simp: foldl_paso_inicial acumulador_inicial_sel simp del: foldl_Cons split: if_splits)+

subsection \<open>The pipeline: chunks, partial results, combined result\<close>

lemma items_estrato_chunks:
  "items_estrato (map (procesar_chunk anio) cs) =
     concat (map (\<lambda>c. value_counts (map estrato_de c)) cs)"
  by (simp add: items_estrato_def comp_def procesar_chunk_sel)



lemma dict_merge_empty_iff: "dict_merge [] items = [] \<longleftrightarrow> items = []"
proof -
  have "fst ` set (dict_merge [] items) = fst ` set items"
    by (simp add: keys_dict_merge)
  then show ?thesis by (metis image_is_empty set_empty)
qed

lemma sum_items_estrato_chunks:
  "sum_list (map snd (concat (map (\<lambda>c. value_counts (map estrato_de c)) cs))) = int (length (concat cs))"
  by (induction cs) (simp_all add: sum_value_counts)

lemma value_counts_empty_iff: "value_counts ks = [] \<longleftrightarrow> ks = []"
proof -
  have "fst ` set (value_counts ks) = set ks" by (rule keys_value_counts)
  then show ?thesis by (metis image_is_empty set_empty)
qed

lemma items_estrato_empty:
  "concat cs = [] \<Longrightarrow> concat (map (\<lambda>c. value_counts (map estrato_de c)) cs) = []"
  by (induction cs) (simp_all add: value_counts_empty_iff)

lemma pipeline_devuelve:
  assumes "cs \<noteq> []"
  shows "\<exists>f. combinar_resultados (map (procesar_chunk anio) cs) = Inr f"
proof -
  let ?items = "concat (map (\<lambda>c. value_counts (map estrato_de c)) cs)"
  have "\<not> (dict_merge [] ?items \<noteq> [] \<and> sum_list (map snd (dict_merge [] ?items)) = 0)"
  proof
    assume a: "dict_merge [] ?items \<noteq> [] \<and> sum_list (map snd (dict_merge [] ?items)) = 0"
    then have "sum_list (map snd ?items) = 0" by (simp add: sum_dict_merge)
    then have "concat cs = []" by (simp add: sum_items_estrato_chunks)
    then have "?items = []" by (rule items_estrato_empty)
    then have "dict_merge [] ?items = []" by (simp only: dict_merge_Nil)
    then show False using a by blast
  qed
  then show ?thesis using assms
    by (simp add: combinar_resultados_Inr_iff items_estrato_chunks)
qed




subsection \<open>The dependency index\<close>




subsection \<open>Rounding\<close>




subsection \<open>Stratum percentages\<close>

lemma lookup0_Nil: "lookup0 [] k = 0"
  by (simp add: lookup0_def)







subsection \<open>Insertion order of an accumulated dict\<close>

lemma remdups_snoc: "remdups (xs @ [k]) = filter (\<lambda>x. x \<noteq> k) (remdups xs) @ [k]"
  by (induction xs) auto

lemma primeras_Nil: "primeras [] = []"
  by (simp add: primeras_def)

lemma primeras_Cons: "primeras (k # ks) = k # filter (\<lambda>x. x \<noteq> k) (primeras ks)"
  by (simp add: primeras_def remdups_snoc rev_filter)

lemma set_primeras: "set (primeras ks) = set ks"
  by (simp add: primeras_def)

lemma distinct_primeras: "distinct (primeras ks)"
  by (simp add: primeras_def)

lemma keys_dict_merge_orden:
  "map fst (dict_merge d items) =
     map fst d @ filter (\<lambda>k. k \<notin> fst ` set d) (primeras (map fst items))"
proof (induction items arbitrary: d)
  case Nil
  then show ?case by (simp add: dict_merge_Nil primeras_Nil)
next
  case (Cons a items)
  obtain k v where a: "a = (k, v)" by (cases a)
  show ?case
  proof (cases "k \<in> fst ` set d")
    case True
    then have "filter (\<lambda>x. x \<notin> fst ` set d) (filter (\<lambda>x. x \<noteq> k) (primeras (map fst items)))
               = filter (\<lambda>x. x \<notin> fst ` set d) (primeras (map fst items))"
      by (auto intro: filter_cong)
    then show ?thesis using True
      by (simp add: a dict_merge_Cons Cons.IH keys_dict_add keyset_dict_add primeras_Cons insert_absorb)
  next
    case False
    have "filter (\<lambda>x. x \<notin> insert k (fst ` set d)) (primeras (map fst items))
          = filter (\<lambda>x. x \<notin> fst ` set d) (filter (\<lambda>x. x \<noteq> k) (primeras (map fst items)))"
      by (auto intro: filter_cong)
    then show ?thesis using False
      by (simp add: a dict_merge_Cons Cons.IH keys_dict_add keyset_dict_add primeras_Cons)
  qed
qed

lemma dict_tabla: "distinct (map fst d) \<Longrightarrow> map (\<lambda>k. (k, lookup0 d k)) (map fst d) = d"
proof (induction d)
  case Nil
  then show ?case by simp
next
  case (Cons a d)
  obtain k v where a: "a = (k, v)" by (cases a)
  have dist: "distinct (map fst d)" and k: "k \<notin> fst ` set d"
    using Cons.prems by (simp_all add: a)
  have h: "map (\<lambda>k'. (k', lookup0 ((k, v) # d) k')) (map fst d)
           = map (\<lambda>k'. (k', lookup0 d k')) (map fst d)"
    using k by (auto simp: lookup0_def)
  have "map (\<lambda>k'. (k', lookup0 (a # d) k')) (map fst (a # d))
        = (k, v) # map (\<lambda>k'. (k', lookup0 ((k, v) # d) k')) (map fst d)"
    by (simp add: a lookup0_def)
  also have "\<dots> = (k, v) # map (\<lambda>k'. (k', lookup0 d k')) (map fst d)"
    by (simp only: h)
  also have "\<dots> = (k, v) # d"
    by (simp only: Cons.IH[OF dist])
  finally show ?case by (simp only: a)
qed

lemma dict_merge_tabla:
  "dict_merge [] items = map (\<lambda>k. (k, suma_clave k items)) (primeras (map fst items))"
proof -
  have "distinct (map fst (dict_merge [] items))"
    by (rule distinct_dict_merge) simp
  then have "map (\<lambda>k. (k, lookup0 (dict_merge [] items) k)) (map fst (dict_merge [] items))
      = dict_merge [] items"
    by (rule dict_tabla)
  then have "dict_merge [] items
      = map (\<lambda>k. (k, lookup0 (dict_merge [] items) k)) (map fst (dict_merge [] items))"
    by (rule sym)
  also have "\<dots> = map (\<lambda>k. (k, suma_clave k items)) (primeras (map fst items))"
    by (simp add: lookup0_dict_merge lookup0_Nil keys_dict_merge_orden)
  finally show ?thesis .
qed

subsection \<open>Top travel flows\<close>

lemma sorted_desc_sort_key:
  fixes xs :: "('k \<times> int) list"
  shows "sorted_wrt (\<lambda>a b. snd b \<le> snd a) (sort_key (\<lambda>x. - snd x) xs)"
proof -
  have "sorted (map (\<lambda>x. - snd x) (sort_key (\<lambda>x. - snd x) xs))"
    by (rule sorted_sort_key)
  then show ?thesis
    by (simp add: sorted_map)
qed

lemma sorted_wrt_take: "sorted_wrt P xs \<Longrightarrow> sorted_wrt P (take n xs)"
  by (metis append_take_drop_id sorted_wrt_append)

lemma filter_tabla:
  fixes g :: "'k \<Rightarrow> int"
  shows "filter (\<lambda>x. snd x = c) (map (\<lambda>k. (k, g k)) ks)
         = map (\<lambda>k. (k, c)) (filter (\<lambda>k. g k = c) ks)"
  by (induction ks) auto

lemma filter_sort_desc:
  fixes d :: "('k \<times> int) list"
  shows "filter (\<lambda>x. snd x = c) (sort_key (\<lambda>x. - snd x) d) = filter (\<lambda>x. snd x = c) d"
  using sort_key_stable[of "\<lambda>x. - snd x" "- c" d] by simp

lemma prefix_filter_take:
  "prefix (filter P (take n xs)) (filter P xs)"
  by (rule filter_mono_prefix) (rule take_is_prefix)

text \<open>
  Claim C6, amended. The top travel flows of the result hold, for each (origin,
  destination) key, the sum of the counts the partial results give for the key; they are
  sorted by descending summed count and cut to at most 10000 entries. Entries of equal
  count stand in the order in which their keys first appear in the partial results, read
  in the order the combiner receives them: no secondary key is applied.
\<close>

theorem top_viajes_orden:
  assumes "combinar_resultados ps = Inr f"
  shows "top_viajes f =
           take 10000 (sort_key (\<lambda>x. - snd x)
             (map (\<lambda>k. (k, suma_clave k (items_viajes ps))) (primeras (map fst (items_viajes ps))))) \<and>
         sorted_wrt (\<lambda>a b. snd b \<le> snd a) (top_viajes f) \<and>
         length (top_viajes f) = min 10000 (length (primeras (map fst (items_viajes ps)))) \<and>
         (\<forall>c. prefix (filter (\<lambda>x. snd x = c) (top_viajes f))
                (map (\<lambda>k. (k, c))
                   (filter (\<lambda>k. suma_clave k (items_viajes ps) = c)
                      (primeras (map fst (items_viajes ps))))))"
proof -
  let ?items = "items_viajes ps"
  let ?d = "map (\<lambda>k. (k, suma_clave k ?items)) (primeras (map fst ?items))"
  have t: "top_viajes f = take 10000 (sort_key (\<lambda>x. - snd x) ?d)"
    using combinar_resultados_campos(6)[OF assms] by (simp only: dict_merge_tabla)
  have s: "sorted_wrt (\<lambda>a b. snd b \<le> snd a) (top_viajes f)"
    unfolding t by (intro sorted_wrt_take sorted_desc_sort_key)
  have l: "length (top_viajes f) = min 10000 (length (primeras (map fst ?items)))"
    unfolding t by simp
  have p: "prefix (filter (\<lambda>x. snd x = c) (top_viajes f))
                (map (\<lambda>k. (k, c)) (filter (\<lambda>k. suma_clave k ?items = c) (primeras (map fst ?items))))"
    for c
  proof -
    have "prefix (filter (\<lambda>x. snd x = c) (top_viajes f))
                 (filter (\<lambda>x. snd x = c) (sort_key (\<lambda>x. - snd x) ?d))"
      unfolding t by (rule prefix_filter_take)
    then have "prefix (filter (\<lambda>x. snd x = c) (top_viajes f)) (filter (\<lambda>x. snd x = c) ?d)"
      by (simp only: filter_sort_desc)
    then show ?thesis
      by (simp only: filter_tabla)
  qed
  show ?thesis
    by (intro conjI allI) (rule t, rule s, rule l, rule p)
qed

theorem top_viajes_orden_witness:
  "\<exists>f. combinar_resultados [procesar_chunk 2024 [fila_ruta ''3000'' ''4000''],
                                procesar_chunk 2024 [fila_ruta ''1000'' ''2000'',
                                                     fila_ruta ''1000'' ''2000'']] = Inr f \<and>
       top_viajes f = [((''1000'', ''2000''), 2), ((''3000'', ''4000''), 1)] \<and>
       sorted_wrt (\<lambda>a b. snd b \<le> snd a) (top_viajes f)"
proof -
  let ?ps = "[procesar_chunk 2024 [fila_ruta ''3000'' ''4000''],
              procesar_chunk 2024 [fila_ruta ''1000'' ''2000'', fila_ruta ''1000'' ''2000'']]"
  have "\<exists>f. combinar_resultados
              (map (procesar_chunk 2024)
                 [[fila_ruta ''3000'' ''4000''],
                  [fila_ruta ''1000'' ''2000'', fila_ruta ''1000'' ''2000'']]) = Inr f"
    by (rule pipeline_devuelve) simp
  then obtain f where f: "combinar_resultados ?ps = Inr f"
    by auto
  have e: "take 10000 (sort_key (\<lambda>x. - snd x)
             (map (\<lambda>k. (k, suma_clave k (items_viajes ?ps))) (primeras (map fst (items_viajes ?ps)))))
           = [((''1000'', ''2000''), 2), ((''3000'', ''4000''), 1)]"
    by code_simp
  show ?thesis
    using f top_viajes_orden [OF f] unfolding e by auto
qed

text \<open>
  Claim C6 as stated fails: the same two partial results, handed to the combiner in the
  two possible orders, give the two tied flows in two different orders.
\<close>

theorem top_viajes_depende_del_orden:
  "map_sum id top_viajes
     (combinar_resultados [procesar_chunk 2024 [fila_ruta ''3000'' ''4000''],
                           procesar_chunk 2024 [fila_ruta ''1000'' ''2000'']])
     = Inr [((''3000'', ''4000''), 1), ((''1000'', ''2000''), 1)] \<and>
   map_sum id top_viajes
     (combinar_resultados [procesar_chunk 2024 [fila_ruta ''1000'' ''2000''],
                           procesar_chunk 2024 [fila_ruta ''3000'' ''4000'']])
     = Inr [((''1000'', ''2000''), 1), ((''3000'', ''4000''), 1)] \<and>
   [((''3000'', ''4000''), 1 :: int), ((''1000'', ''2000''), 1)]
     \<noteq> [((''1000'', ''2000''), 1), ((''3000'', ''4000''), 1)]"
proof -
  have "map_sum id top_viajes
     (combinar_resultados [procesar_chunk 2024 [fila_ruta ''3000'' ''4000''],
                           procesar_chunk 2024 [fila_ruta ''1000'' ''2000'']])
     = Inr [((''3000'', ''4000''), 1), ((''1000'', ''2000''), 1)]"
    by code_simp
  moreover have "map_sum id top_viajes
     (combinar_resultados [procesar_chunk 2024 [fila_ruta ''1000'' ''2000''],
                           procesar_chunk 2024 [fila_ruta ''3000'' ''4000'']])
     = Inr [((''1000'', ''2000''), 1), ((''3000'', ''4000''), 1)]"
    by code_simp
  ultimately show ?thesis by simp
qed

subsection \<open>Age statistics and the pyramid across chunks\<close>

text \<open>
  Claim C2 fails on the code. Two chunks with one row each of the group (A, M), of ages
  10 and 40: the result lists the group twice, with the means 10 and 40 of the chunks,
  where the mean of the group is (10 + 40) / 2 = 25, which is what the same two rows
  give in one chunk.
\<close>

theorem media_por_chunk:
  "map_sum id edad_estadisticas
     (combinar_resultados (map (procesar_chunk 2024) [[fila_nacida 2014], [fila_nacida 1984]]))
     = Inr [\<lparr>es_especie = ''A'', es_genero = ''M'', es_mean = 10, es_median = 10\<rparr>,
            \<lparr>es_especie = ''A'', es_genero = ''M'', es_mean = 40, es_median = 40\<rparr>] \<and>
   map_sum id edad_estadisticas
     (combinar_resultados (map (procesar_chunk 2024) [[fila_nacida 2014, fila_nacida 1984]]))
     = Inr [\<lparr>es_especie = ''A'', es_genero = ''M'', es_mean = 25, es_median = 25\<rparr>]"
proof -
  have "map_sum id edad_estadisticas
     (combinar_resultados (map (procesar_chunk 2024) [[fila_nacida 2014], [fila_nacida 1984]]))
     = Inr [\<lparr>es_especie = ''A'', es_genero = ''M'', es_mean = 10, es_median = 10\<rparr>,
            \<lparr>es_especie = ''A'', es_genero = ''M'', es_mean = 40, es_median = 40\<rparr>]"
    by code_simp
  moreover have "map_sum id edad_estadisticas
     (combinar_resultados (map (procesar_chunk 2024) [[fila_nacida 2014, fila_nacida 1984]]))
     = Inr [\<lparr>es_especie = ''A'', es_genero = ''M'', es_mean = 25, es_median = 25\<rparr>]"
    by code_simp
  ultimately show ?thesis by simp
qed

text \<open>
  Claim C3 fails on the code. The group (A, M) has the ages 10 and 20 in a first chunk
  and 90 in a second one: the result reports the medians 15 and 90 of the two chunks,
  where the median of the three ages is 20, which is what one chunk of the three rows
  gives.
\<close>

theorem mediana_por_chunk:
  "map_sum id (\<lambda>f. map (\<lambda>s. (es_especie s, es_genero s, es_median s)) (edad_estadisticas f))
     (combinar_resultados
        (map (procesar_chunk 2024) [[fila_nacida 2014, fila_nacida 2004], [fila_nacida 1934]]))
     = Inr [(''A'', ''M'', 15), (''A'', ''M'', 90)] \<and>
   map_sum id (\<lambda>f. map (\<lambda>s. (es_especie s, es_genero s, es_median s)) (edad_estadisticas f))
     (combinar_resultados
        (map (procesar_chunk 2024) [[fila_nacida 2014, fila_nacida 2004, fila_nacida 1934]]))
     = Inr [(''A'', ''M'', 20)]"
proof -
  have "map_sum id (\<lambda>f. map (\<lambda>s. (es_especie s, es_genero s, es_median s)) (edad_estadisticas f))
     (combinar_resultados
        (map (procesar_chunk 2024) [[fila_nacida 2014, fila_nacida 2004], [fila_nacida 1934]]))
     = Inr [(''A'', ''M'', 15), (''A'', ''M'', 90)]"
    by code_simp
  moreover have "map_sum id (\<lambda>f. map (\<lambda>s. (es_especie s, es_genero s, es_median s)) (edad_estadisticas f))
     (combinar_resultados
        (map (procesar_chunk 2024) [[fila_nacida 2014, fila_nacida 2004, fila_nacida 1934]]))
     = Inr [(''A'', ''M'', 20)]"
    by code_simp
  ultimately show ?thesis by simp
qed

text \<open>
  Claim C4 fails on the code for the pyramid counts. \<open>sum(piramide_total)\<close> adds the
  Series with \<open>+\<close>, which gives NaN for every key that one of the partial results
  lacks. Two chunks of one row each, of ages 3 and 7: each pyramid has one key with
  count 1, and the combined pyramid has NaN for both keys, where the elementwise sum
  over the union of keys is 1 for both.
\<close>

theorem piramide_nan_si_falta_clave:
  "p_piramide (procesar_chunk 2024 [fila_nacida 2021]) = [((''0-4'', ''M''), Num 1)] \<and>
   p_piramide (procesar_chunk 2024 [fila_nacida 2017]) = [((''5-9'', ''M''), Num 1)] \<and>
   map_sum id piramide_edades
     (combinar_resultados (map (procesar_chunk 2024) [[fila_nacida 2021], [fila_nacida 2017]]))
     = Inr [((''0-4'', ''M''), NaN), ((''5-9'', ''M''), NaN)]"
proof -
  have "p_piramide (procesar_chunk 2024 [fila_nacida 2021]) = [((''0-4'', ''M''), Num 1)]"
    by code_simp
  moreover have "p_piramide (procesar_chunk 2024 [fila_nacida 2017]) = [((''5-9'', ''M''), Num 1)]"
    by code_simp
  moreover have "map_sum id piramide_edades
     (combinar_resultados (map (procesar_chunk 2024) [[fila_nacida 2021], [fila_nacida 2017]]))
     = Inr [((''0-4'', ''M''), NaN), ((''5-9'', ''M''), NaN)]"
    by code_simp
  ultimately show ?thesis by simp
qed

subsection \<open>Counts over a split dataset\<close>








subsection \<open>Sorted counts of two dicts with the same content\<close>

lemma mset_dict_eq:
  assumes "distinct (map fst d1)" and "distinct (map fst d2)" and "map_of d1 = map_of d2"
  shows "mset d1 = mset d2"
proof -
  have "set d1 = set d2"
    using assms by (simp add: map_of_inject_set)
  moreover have "distinct d1" "distinct d2"
    using assms(1,2) by (simp_all add: distinct_map)
  ultimately show ?thesis
    by (simp add: set_eq_iff_mset_eq_distinct)
qed

lemma conteos_ordenados_iguales:
  fixes d1 d2 :: "('k \<times> int) list"
  assumes "mset d1 = mset d2"
  shows "map snd (take n (sort_key (\<lambda>x. - snd x) d1)) = map snd (take n (sort_key (\<lambda>x. - snd x) d2))"
proof -
  let ?L = "\<lambda>d :: ('k \<times> int) list. map (\<lambda>x. - snd x) (sort_key (\<lambda>x. - snd x) d)"
  have s: "sort (map (\<lambda>x. - snd x) d1) = ?L d" if "mset d = mset d1" for d
  proof (rule properties_for_sort)
    show "mset (?L d) = mset (map (\<lambda>x. - snd x) d1)"
      using that by simp
    show "sorted (?L d)"
      by (rule sorted_sort_key)
  qed
  have "?L d1 = ?L d2"
    using s[of d1] s[of d2] assms by simp
  then have "map uminus (?L d1) = map uminus (?L d2)"
    by simp
  then have "map snd (sort_key (\<lambda>x. - snd x) d1) = map snd (sort_key (\<lambda>x. - snd x) d2)"
    by (simp add: comp_def)
  then show ?thesis
    by (simp only: take_map[symmetric])
qed

subsection \<open>The combined result as a function of the whole dataset\<close>

lemma claves_unicas:
  assumes "combinar_resultados ps = Inr f"
  shows "distinct (map fst (conteo_estrato f))"
    and "distinct (map fst (porcentaje_estrato f))"
    and "distinct (map fst (tramos f))"
    and "distinct (map fst (top_viajes f))"
proof -
  have e: "distinct (map fst (dict_merge [] (items_estrato ps)))"
    by (rule distinct_dict_merge) simp
  show "distinct (map fst (conteo_estrato f))"
    using e by (simp only: combinar_resultados_campos(1)[OF assms])
  have "map fst (porcentaje_estrato f) = map fst (dict_merge [] (items_estrato ps))"
    unfolding combinar_resultados_campos(2)[OF assms] by (simp add: comp_def case_prod_unfold)
  then show "distinct (map fst (porcentaje_estrato f))"
    using e by simp
  have "distinct (map fst (dict_merge [] (items_tramos ps)))"
    by (rule distinct_dict_merge) simp
  then show "distinct (map fst (tramos f))"
    by (simp only: combinar_resultados_campos(4)[OF assms])
  have "distinct (map fst (dict_merge [] (items_viajes ps)))"
    by (rule distinct_dict_merge) simp
  then have "distinct (map fst (sort_key (\<lambda>x. - snd x) (dict_merge [] (items_viajes ps))))"
    by (simp add: distinct_map)
  then have "distinct (take 10000 (map fst (sort_key (\<lambda>x. - snd x) (dict_merge [] (items_viajes ps)))))"
    by (rule distinct_take)
  then show "distinct (map fst (top_viajes f))"
    by (simp only: combinar_resultados_campos(6)[OF assms] take_map)
qed






subsection \<open>Partition invariance\<close>




subsection \<open>The dict-summed counters do not depend on the order of the partial results\<close>

lemma mset_concat_map:
  assumes "mset ps = mset qs"
  shows "mset (concat (map h ps)) = mset (concat (map h qs))"
proof -
  have "mset (concat (map h xs)) = sum_mset (image_mset (\<lambda>p. mset (h p)) (mset xs))" for xs
    by (induction xs) simp_all
  then show ?thesis using assms by simp
qed

lemma map_of_dict_merge_mset:
  assumes "mset items = mset items'"
  shows "map_of (dict_merge [] items) = map_of (dict_merge [] items')"
proof
  fix k
  have "set items = set items'"
    using assms by (rule mset_eq_setD)
  moreover have "suma_clave k items = suma_clave k items'"
    using assms by (rule suma_clave_mset)
  ultimately show "map_of (dict_merge [] items) k = map_of (dict_merge [] items') k"
    by (simp only: map_of_dict_merge)
qed

lemma sum_list_snd_mset:
  fixes items :: "('k \<times> int) list"
  assumes "mset items = mset items'"
  shows "sum_list (map snd items) = sum_list (map snd items')"
proof -
  have "mset (map snd items) = mset (map snd items')"
    using assms by simp
  then show ?thesis by (metis sum_mset_sum_list)
qed

lemma sum_list_map_mset:
  fixes h :: "'a \<Rightarrow> int"
  assumes "mset ps = mset qs"
  shows "sum_list (map h ps) = sum_list (map h qs)"
proof -
  have "mset (map h ps) = mset (map h qs)"
    using assms by simp
  then show ?thesis by (metis sum_mset_sum_list)
qed

text \<open>
  The stratum counts, the bracket counts, the dependency numerator and denominator (hence
  the index) and the summed travel-flow counts are sums per key over all partial results,
  and are the same for any reordering of the partial results.
\<close>

lemma contadores_orden_parciales:
  assumes "mset ps = mset qs" and "combinar_resultados ps = Inr f"
  shows "\<exists>g. combinar_resultados qs = Inr g \<and>
             map_of (conteo_estrato g) = map_of (conteo_estrato f) \<and>
             map_of (porcentaje_estrato g) = map_of (porcentaje_estrato f) \<and>
             map_of (tramos g) = map_of (tramos f) \<and>
             indice_dependencia g = indice_dependencia f \<and>
             map snd (top_viajes g) = map snd (top_viajes f)"
proof -
  have ie: "mset (items_estrato ps) = mset (items_estrato qs)"
    unfolding items_estrato_def using assms(1) by (rule mset_concat_map)
  have it: "mset (items_tramos ps) = mset (items_tramos qs)"
    unfolding items_tramos_def using assms(1) by (rule mset_concat_map)
  have iv: "mset (items_viajes ps) = mset (items_viajes qs)"
    unfolding items_viajes_def using assms(1) by (rule mset_concat_map)
  have se: "sum_list (map snd (dict_merge [] (items_estrato ps)))
            = sum_list (map snd (dict_merge [] (items_estrato qs)))"
    using sum_list_snd_mset[OF ie] by (simp only: sum_dict_merge)
  have ne: "dict_merge [] (items_estrato ps) = [] \<longleftrightarrow> dict_merge [] (items_estrato qs) = []"
    using ie unfolding dict_merge_empty_iff by (metis mset_zero_iff)
  have np: "ps = [] \<longleftrightarrow> qs = []"
    using assms(1) by (metis mset_zero_iff)
  have "\<exists>f. combinar_resultados ps = Inr f"
    using assms(2) by blast
  then have "\<exists>g. combinar_resultados qs = Inr g"
    unfolding combinar_resultados_Inr_iff using se ne np by simp
  then obtain g where g: "combinar_resultados qs = Inr g"
    by blast
  have me: "map_of (dict_merge [] (items_estrato qs)) = map_of (dict_merge [] (items_estrato ps))"
    using ie[symmetric] by (rule map_of_dict_merge_mset)
  have e: "map_of (conteo_estrato g) = map_of (conteo_estrato f)"
    using me by (simp only: combinar_resultados_campos(1)[OF g] combinar_resultados_campos(1)[OF assms(2)])
  have p: "map_of (porcentaje_estrato g) = map_of (porcentaje_estrato f)"
    by (simp only: combinar_resultados_campos(2)[OF g] combinar_resultados_campos(2)[OF assms(2)]
          map_of_map me se)
  have "map_of (dict_merge [] (items_tramos qs)) = map_of (dict_merge [] (items_tramos ps))"
    using it[symmetric] by (rule map_of_dict_merge_mset)
  then have t: "map_of (tramos g) = map_of (tramos f)"
    by (simp only: combinar_resultados_campos(4)[OF g] combinar_resultados_campos(4)[OF assms(2)])
  have "sum_list (map (\<lambda>p. fst (p_dependencia p)) qs) = sum_list (map (\<lambda>p. fst (p_dependencia p)) ps)"
       "sum_list (map (\<lambda>p. snd (p_dependencia p)) qs) = sum_list (map (\<lambda>p. snd (p_dependencia p)) ps)"
    using assms(1)[symmetric] by (rule sum_list_map_mset)+
  then have i: "indice_dependencia g = indice_dependencia f"
    by (simp only: combinar_resultados_campos(5)[OF g] combinar_resultados_campos(5)[OF assms(2)])
  have "map_of (dict_merge [] (items_viajes qs)) = map_of (dict_merge [] (items_viajes ps))"
    using iv[symmetric] by (rule map_of_dict_merge_mset)
  moreover have "distinct (map fst (dict_merge [] (items_viajes qs)))"
      "distinct (map fst (dict_merge [] (items_viajes ps)))"
    by (rule distinct_dict_merge, simp)+
  ultimately have "mset (dict_merge [] (items_viajes qs)) = mset (dict_merge [] (items_viajes ps))"
    by (intro mset_dict_eq)
  then have v: "map snd (top_viajes g) = map snd (top_viajes f)"
    unfolding combinar_resultados_campos(6)[OF g] combinar_resultados_campos(6)[OF assms(2)]
    by (rule conteos_ordenados_iguales)
  show ?thesis
    by (intro exI conjI) (rule g, rule e, rule p, rule t, rule i, rule v)
qed

end
